theory Spec2Isabelle
  imports Complex_Main
begin

section \<open>The penguins game state of the socha client\<close>

text \<open>
  The development embeds \<^verbatim>\<open>socha/api/plugin/penguins/game_state.py\<close>: the class
  \<^verbatim>\<open>GameState\<close> with its properties \<^verbatim>\<open>round\<close>, \<^verbatim>\<open>current_team\<close> and
  \<^verbatim>\<open>possible_moves\<close> and its methods \<^verbatim>\<open>_get_possible_moves\<close>,
  \<^verbatim>\<open>current_team_from_turn\<close>, \<^verbatim>\<open>perform_move\<close>, \<^verbatim>\<open>_update_team\<close> and
  \<^verbatim>\<open>is_valid_move\<close>.

  \<^verbatim>\<open>Team\<close> and \<^verbatim>\<open>Penguin\<close> objects are mutable and are reached through references, so
  they live in an explicit store and a \<^verbatim>\<open>GameState\<close> holds the addresses of its two
  teams. The modules \<^verbatim>\<open>board.py\<close>, \<^verbatim>\<open>coordinate.py\<close> and \<^verbatim>\<open>team.py\<close> are imported by
  the source file but are not part of it; what the game state needs from them is modelled
  below from the specification, and the board's enumeration of slides, which the
  specification leaves to the board, is a parameter of every function that calls it.
\<close>

subsection \<open>Values: teams' identities, coordinates, moves, pieces\<close>

datatype team_enum = ONE | TWO

datatype hex_coordinate = HexCoordinate (hex_x: int) (hex_y: int)

datatype cartesian_coordinate = CartesianCoordinate (cart_x: int) (cart_y: int)

text \<open>
  Modelled from the spec: \<^verbatim>\<open>CartesianCoordinate.to_hex\<close> (coordinate.py is missing).
  The specification asks for a total conversion between offset grid indices and axial hex
  indices that loses nothing in either direction; the doubled-width layout below is such a
  conversion. The theorems use nothing of it but that it is injective (\<open>inj_to_hex\<close>).
\<close>

fun to_hex :: "cartesian_coordinate \<Rightarrow> hex_coordinate" where
  "to_hex (CartesianCoordinate x y) = HexCoordinate (x * 2 + (if y mod 2 = 1 then 1 else 0)) y"

text \<open>
  Modelled from the spec: \<^verbatim>\<open>Move\<close> (team.py is missing) is a value with the identity of
  the acting team, an optional source (absent for a placement) and a destination; two
  moves are equal when the three agree.
\<close>

record move =
  team_enum :: team_enum
  from_value :: "hex_coordinate option"
  to_value :: "hex_coordinate"

text \<open>
  Modelled from the spec: a piece (\<^verbatim>\<open>Penguin\<close>) belongs to one team and has a current
  coordinate.
\<close>

record penguin =
  penguin_team :: team_enum
  coordinate :: hex_coordinate

subsection \<open>The board\<close>

text \<open>
  Modelled from the spec: \<^verbatim>\<open>Field\<close> and \<^verbatim>\<open>Board\<close> (board.py is missing). A field has a
  resource count and at most one occupying piece; a board is a grid of \<open>width \<times> height\<close>
  fields, read through \<^verbatim>\<open>get_field\<close> at a hex coordinate. The pieces of a team are the
  occupants of the grid's fields that belong to it, in the order of the grid.
  A board is immutable: \<^verbatim>\<open>move\<close> returns a new board.
\<close>

record field =
  fish_count :: int
  occupant :: "penguin option"

definition get_fish :: "field \<Rightarrow> int" where
  "get_fish f = fish_count f"

definition is_occupied :: "field \<Rightarrow> bool" where
  "is_occupied f = (occupant f \<noteq> None)"

record board =
  width :: nat
  height :: nat
  cells :: "hex_coordinate \<Rightarrow> field"

definition get_field :: "board \<Rightarrow> hex_coordinate \<Rightarrow> field" where
  "get_field b c = cells b c"

definition grid_coordinates :: "board \<Rightarrow> hex_coordinate list" where
  "grid_coordinates b =
     concat (map (\<lambda>x. map (\<lambda>y. to_hex (CartesianCoordinate (int x) (int y))) [0..<height b])
                 [0..<width b])"

definition get_teams_penguins :: "board \<Rightarrow> team_enum \<Rightarrow> penguin list" where
  "get_teams_penguins b t =
     concat (map (\<lambda>c. case occupant (get_field b c) of
                         None \<Rightarrow> []
                       | Some p \<Rightarrow> (if penguin_team p = t then [p] else []))
                 (grid_coordinates b))"

text \<open>
  Modelled from the spec: \<^verbatim>\<open>Board.move\<close>. The new board has the source field (if the
  move has one) vacated, the destination's resource harvested to 0 and the moving piece,
  a piece of the acting team standing on the destination, as the destination's occupant.
\<close>

definition vacate :: "board \<Rightarrow> hex_coordinate option \<Rightarrow> board" where
  "vacate b src =
     (case src of
        None \<Rightarrow> b
      | Some c \<Rightarrow> b\<lparr>cells := (cells b)(c := (cells b c)\<lparr>occupant := None\<rparr>)\<rparr>)"

definition board_move :: "board \<Rightarrow> move \<Rightarrow> board" where
  "board_move b m =
     (let b' = vacate b (from_value m)
      in b'\<lparr>cells := (cells b')(to_value m :=
              \<lparr>fish_count = 0,
               occupant = Some \<lparr>penguin_team = team_enum m, coordinate = to_value m\<rparr>\<rparr>)\<rparr>)"

text \<open>
  \<^verbatim>\<open>Board.possible_moves_from(coordinate, team)\<close>: the specification leaves the geometry
  of sliding to the board, so the enumeration is a parameter.
\<close>

type_synonym slides = "board \<Rightarrow> hex_coordinate \<Rightarrow> team_enum \<Rightarrow> move list"

subsection \<open>The store of team and piece objects\<close>

type_synonym addr = nat

text \<open>
  Modelled from the spec: \<^verbatim>\<open>Team\<close> (team.py is missing) carries its identity, its
  pieces, its move history, its score and a reference to its opponent. The list of pieces
  holds references to \<^verbatim>\<open>Penguin\<close> objects.
\<close>

record team =
  name :: team_enum
  penguins :: "addr list"
  moves :: "move list"
  fish :: int
  opponent :: "addr option"

record store =
  teams :: "team list"
  pengs :: "penguin list"

record game_state =
  board :: board
  turn :: int
  first_team :: addr
  second_team :: addr
  last_move :: "move option"

datatype error = InvalidMove | AttributeError | OverflowError

subsection \<open>Reading and writing the store\<close>

text \<open>
  An address is an index into the store. Python has no dangling reference, so the
  addresses a game state holds are allocated; \<open>wf_state\<close> below says so, and the theorems
  that read the store through an address assume it.
\<close>

definition team_at :: "store \<Rightarrow> addr \<Rightarrow> team" where
  "team_at h a = teams h ! a"

definition penguin_at :: "store \<Rightarrow> addr \<Rightarrow> penguin" where
  "penguin_at h p = pengs h ! p"

definition upd_team :: "store \<Rightarrow> addr \<Rightarrow> (team \<Rightarrow> team) \<Rightarrow> store" where
  "upd_team h a f = h\<lparr>teams := (teams h)[a := f (team_at h a)]\<rparr>"

definition upd_penguin :: "store \<Rightarrow> addr \<Rightarrow> (penguin \<Rightarrow> penguin) \<Rightarrow> store" where
  "upd_penguin h p f = h\<lparr>pengs := (pengs h)[p := f (penguin_at h p)]\<rparr>"

definition alloc_penguin :: "store \<Rightarrow> penguin \<Rightarrow> store" where
  "alloc_penguin h p = h\<lparr>pengs := pengs h @ [p]\<rparr>"

definition wf_team :: "store \<Rightarrow> team \<Rightarrow> bool" where
  "wf_team h t =
     (list_all (\<lambda>p. p < length (pengs h)) (penguins t) \<and>
      (case opponent t of None \<Rightarrow> True | Some a \<Rightarrow> a < length (teams h)))"

definition wf_state :: "store \<Rightarrow> game_state \<Rightarrow> bool" where
  "wf_state h g =
     (first_team g < length (teams h) \<and> second_team g < length (teams h) \<and>
      list_all (wf_team h) (teams h))"

subsection \<open>Move generation, the current team, validation\<close>

text \<open>
  Lines 85 to 95 of \<^verbatim>\<open>_get_possible_moves\<close>, for a team object: while the team has fewer
  than four pieces on the board, one placement per free field with exactly one fish, in
  the order of the two loops; afterwards the slides the board enumerates from each of the
  team's pieces.
\<close>

definition placement_moves :: "board \<Rightarrow> team_enum \<Rightarrow> move list" where
  "placement_moves b t =
     concat (map (\<lambda>x. concat (map (\<lambda>y.
        let fld = get_field b (to_hex (CartesianCoordinate (int x) (int y)))
        in if \<not> is_occupied fld \<and> get_fish fld = 1
           then [\<lparr>team_enum = t, from_value = None,
                   to_value = to_hex (CartesianCoordinate (int x) (int y))\<rparr>]
           else []) [0..<height b])) [0..<width b])"

definition slide_moves :: "slides \<Rightarrow> board \<Rightarrow> team_enum \<Rightarrow> move list" where
  "slide_moves pmf b t =
     concat (map (\<lambda>piece. pmf b (coordinate piece) t) (get_teams_penguins b t))"

definition moves_of_team :: "slides \<Rightarrow> store \<Rightarrow> game_state \<Rightarrow> addr \<Rightarrow> move list" where
  "moves_of_team pmf h g t =
     (if length (get_teams_penguins (board g) (name (team_at h t))) < 4
      then placement_moves (board g) (name (team_at h t))
      else slide_moves pmf (board g) (name (team_at h t)))"

text \<open>
  \<^verbatim>\<open>current_team_from_turn\<close> calls \<^verbatim>\<open>_get_possible_moves\<close> with the first and with the
  second team; both are team objects (truthy), so these calls run the body above and the
  recursion through \<^verbatim>\<open>current_team or self.current_team\<close> ends after one step.
  \<open>None\<close> is Python's \<^verbatim>\<open>None\<close>.
\<close>

definition current_team_from_turn ::
  "slides \<Rightarrow> store \<Rightarrow> game_state \<Rightarrow> int \<Rightarrow> addr option" where
  "current_team_from_turn pmf h g n =
     (let possible_moves_first = moves_of_team pmf h g (first_team g);
          possible_moves_second = moves_of_team pmf h g (second_team g)
      in if n mod 2 = 0
         then (if possible_moves_first \<noteq> [] then Some (first_team g)
               else if possible_moves_second \<noteq> [] then Some (second_team g) else None)
         else (if possible_moves_second \<noteq> [] then Some (second_team g)
               else if possible_moves_first \<noteq> [] then Some (first_team g) else None))"

definition current_team :: "slides \<Rightarrow> store \<Rightarrow> game_state \<Rightarrow> addr option" where
  "current_team pmf h g = current_team_from_turn pmf h g (turn g)"

definition get_possible_moves ::
  "slides \<Rightarrow> store \<Rightarrow> game_state \<Rightarrow> addr option \<Rightarrow> move list" where
  "get_possible_moves pmf h g ct =
     (case (case ct of Some t \<Rightarrow> Some t | None \<Rightarrow> current_team pmf h g) of
        None \<Rightarrow> []
      | Some t \<Rightarrow> moves_of_team pmf h g t)"

definition possible_moves :: "slides \<Rightarrow> store \<Rightarrow> game_state \<Rightarrow> move list" where
  "possible_moves pmf h g = get_possible_moves pmf h g (current_team pmf h g)"

definition is_valid_move :: "slides \<Rightarrow> store \<Rightarrow> game_state \<Rightarrow> move \<Rightarrow> bool" where
  "is_valid_move pmf h g m = (m \<in> set (possible_moves pmf h g))"

subsection \<open>The transition\<close>

text \<open>
  \<^verbatim>\<open>pickle.loads(pickle.dumps(team))\<close> builds a copy of the objects reachable from the
  team, at fresh addresses, with the references between the copies as between the
  originals. The model copies every object of the store behind the store and shifts the
  references of the copies by the size of the store; the objects reachable from the copy
  of the team are the graph pickle builds, the other copies are reachable from nowhere.
\<close>

definition relocate :: "nat \<Rightarrow> nat \<Rightarrow> team \<Rightarrow> team" where
  "relocate dt dp t =
     t\<lparr>penguins := map (\<lambda>p. p + dp) (penguins t),
       opponent := map_option (\<lambda>a. a + dt) (opponent t)\<rparr>"

definition deep_copy :: "store \<Rightarrow> addr \<Rightarrow> addr \<times> store" where
  "deep_copy h a =
     (a + length (teams h),
      \<lparr>teams = teams h @ map (relocate (length (teams h)) (length (pengs h))) (teams h),
       pengs = pengs h @ pengs h\<rparr>)"

text \<open>
  \<^verbatim>\<open>_update_team\<close>, on the store. The piece on the destination of the new board is read
  as a value; where the source appends that piece to the team's list, the model allocates
  an object holding it. A new board with no piece on the destination makes
  \<^verbatim>\<open>new_penguin.coordinate\<close> fail; in the other branch Python appends \<^verbatim>\<open>None\<close> to the
  list and credits the fish without raising, but a list of pieces cannot hold \<^verbatim>\<open>None\<close>,
  and the model stops with the error there as well. Neither branch is reached from
  \<^verbatim>\<open>perform_move\<close>: \<open>board_move\<close> always leaves a piece on the destination
  (\<open>board_move_destination\<close>, \<open>update_team_board_move\<close>).
\<close>

definition update_team ::
  "game_state \<Rightarrow> store \<Rightarrow> addr \<Rightarrow> move \<Rightarrow> board \<Rightarrow> error + store" where
  "update_team g h t m new_board =
     (let h1 = upd_team h t (\<lambda>tm. tm\<lparr>moves := moves tm @ [m]\<rparr>);
          adding_fish = get_fish (get_field (board g) (to_value m));
          new_penguin = occupant (get_field new_board (to_value m));
          teams_penguin =
            find (\<lambda>x. Some (coordinate (penguin_at h1 x)) = from_value m)
                 (penguins (team_at h1 t))
      in case new_penguin of
           None \<Rightarrow> Inl AttributeError
         | Some np \<Rightarrow>
             let h2 = (case teams_penguin of
                         Some x \<Rightarrow> upd_penguin h1 x (\<lambda>p. p\<lparr>coordinate := coordinate np\<rparr>)
                       | None \<Rightarrow>
                           upd_team (alloc_penguin h1 np) t
                             (\<lambda>tm. tm\<lparr>penguins := penguins tm @ [length (pengs h1)]\<rparr>))
             in Inr (upd_team h2 t (\<lambda>tm. tm\<lparr>fish := fish tm + adding_fish\<rparr>)))"

text \<open>
  \<^verbatim>\<open>perform_move\<close> returns the new game state or the error raised, and the store after
  the call. \<^verbatim>\<open>self.current_team.name\<close> fails with an attribute error when there is no
  current team; the conjunction of line 121 evaluates it only after \<^verbatim>\<open>is_valid_move\<close>
  has returned true, and line 125 evaluates it again, after the two copies have been
  made. \<^verbatim>\<open>InvalidMove\<close> is the \<^verbatim>\<open>ValueError\<close> of line 137.
\<close>

definition perform_move ::
  "slides \<Rightarrow> store \<Rightarrow> game_state \<Rightarrow> move \<Rightarrow> (error + game_state) \<times> store" where
  "perform_move pmf h g m =
     (if is_valid_move pmf h g m then
        (case current_team pmf h g of
           None \<Rightarrow> (Inl AttributeError, h)
         | Some ct \<Rightarrow>
             if name (team_at h ct) = team_enum m then
               (let new_board = board_move (board g) m;
                    (new_first_team, h1) = deep_copy h (first_team g);
                    (new_second_team, h2) = deep_copy h1 (second_team g)
                in case current_team pmf h2 g of
                     None \<Rightarrow> (Inl AttributeError, h2)
                   | Some ct2 \<Rightarrow>
                       (case (if name (team_at h2 ct2) = ONE
                              then update_team g h2 new_first_team m new_board
                              else update_team g h2 new_second_team m new_board) of
                          Inl e \<Rightarrow> (Inl e, h2)
                        | Inr h3 \<Rightarrow>
                            (let h4 = upd_team h3 new_first_team
                                        (\<lambda>tm. tm\<lparr>opponent := Some new_second_team\<rparr>);
                                 h5 = upd_team h4 new_second_team
                                        (\<lambda>tm. tm\<lparr>opponent := Some new_first_team\<rparr>)
                             in (Inr \<lparr>board = new_board, turn = turn g + 1,
                                      first_team = new_first_team,
                                      second_team = new_second_team,
                                      last_move = Some m\<rparr>, h5))))
             else (Inl InvalidMove, h))
      else (Inl InvalidMove, h))"

subsection \<open>Rounds\<close>

text \<open>
  \<^verbatim>\<open>round\<close> is \<^verbatim>\<open>int((self.turn + 1) / 2)\<close>. The operator \<^verbatim>\<open>/\<close> on two Python integers is
  true division: its result is the double nearest to the quotient, ties going to the even
  mantissa, and an overflow error when that is beyond the doubles; \<^verbatim>\<open>int\<close> then truncates
  toward zero. A double has 53 bits of mantissa, so half of an integer of at most 53 bits
  is a double, and half of an integer of \<open>e > 53\<close> bits is rounded to a multiple of
  \<open>2 ^ (e - 54)\<close>.
\<close>

fun bit_length :: "nat \<Rightarrow> nat" where
  "bit_length n = (if n = 0 then 0 else Suc (bit_length (n div 2)))"

definition round_half_even :: "nat \<Rightarrow> nat \<Rightarrow> nat" where
  "round_half_even a b =
     (let q = a div b; r = a mod b
      in if 2 * r < b then q else if b < 2 * r then q + 1 else if even q then q else q + 1)"

definition true_div_2 :: "int \<Rightarrow> error + rat" where
  "true_div_2 n =
     (let a = nat \<bar>n\<bar>; e = bit_length a
      in if e \<le> 53 then Inr (of_int n / 2)
         else (let u = 2 ^ (e - 54); v = round_half_even a (2 * u) * u
               in if 2 ^ 1024 \<le> v then Inl OverflowError
                  else Inr (of_int (sgn n * int v))))"

definition py_int :: "rat \<Rightarrow> int" where
  "py_int x = (if 0 \<le> x then \<lfloor>x\<rfloor> else \<lceil>x\<rceil>)"

definition round_state :: "game_state \<Rightarrow> error + int" where
  "round_state g =
     (case true_div_2 (turn g + 1) of Inl e \<Rightarrow> Inl e | Inr x \<Rightarrow> Inr (py_int x))"

subsection \<open>Notions the properties are stated with\<close>

text \<open>
  The store after lines 123 and 124 of \<^verbatim>\<open>perform_move\<close>, when both teams have been
  copied and nothing has been written yet.
\<close>

definition copied :: "store \<Rightarrow> game_state \<Rightarrow> store" where
  "copied h g = snd (deep_copy (snd (deep_copy h (first_team g))) (second_team g))"

text \<open>
  What a team object holds, with its pieces read through their references: identity,
  pieces, move history and score.
\<close>

definition team_value ::
  "store \<Rightarrow> addr \<Rightarrow> team_enum \<times> penguin list \<times> move list \<times> int" where
  "team_value h a =
     (name (team_at h a), map (penguin_at h) (penguins (team_at h a)), moves (team_at h a),
      fish (team_at h a))"

text \<open>
  The snapshot in the successor \<open>g'\<close> of the team \<open>ct\<close> of \<open>g\<close>: the first team of \<open>g'\<close> for
  the first team of \<open>g\<close>, the second for the second.
\<close>

definition moved_team :: "game_state \<Rightarrow> game_state \<Rightarrow> addr \<Rightarrow> addr" where
  "moved_team g g' ct = (if ct = first_team g then first_team g' else second_team g')"

text \<open>A terminal state: neither team has a legal move.\<close>

definition terminal :: "slides \<Rightarrow> store \<Rightarrow> game_state \<Rightarrow> bool" where
  "terminal pmf h g =
     (get_possible_moves pmf h g (Some (first_team g)) = [] \<and>
      get_possible_moves pmf h g (Some (second_team g)) = [])"

subsection \<open>Example states\<close>

text \<open>
  An enumeration of slides for the examples: from a coordinate, the one step to the
  eastern neighbour, when that field is free and holds fish.
\<close>

definition east_slides :: slides where
  "east_slides b c t =
     (let d = HexCoordinate (hex_x c + 2) (hex_y c)
      in if \<not> is_occupied (get_field b d) \<and> 0 < get_fish (get_field b d)
         then [\<lparr>team_enum = t, from_value = Some c, to_value = d\<rparr>] else [])"

definition free_field :: "int \<Rightarrow> field" where
  "free_field n = \<lparr>fish_count = n, occupant = None\<rparr>"

definition taken_field :: "team_enum \<Rightarrow> hex_coordinate \<Rightarrow> field" where
  "taken_field t c = \<lparr>fish_count = 0, occupant = Some \<lparr>penguin_team = t, coordinate = c\<rparr>\<rparr>"

text \<open>
  A state of the placement phase: a board of three by two fields on which each team has
  placed one piece, and the first team, ONE, to move at turn 2. \<open>m_ex\<close> places a piece of
  ONE on the free field with one fish; \<open>g_ex1\<close> and \<open>h_ex1\<close> are the successor and the store
  after the move. \<open>m_foreign\<close> is the same placement declared for team TWO.
\<close>

definition b_ex :: board where
  "b_ex = \<lparr>width = 3, height = 2,
           cells = (\<lambda>c. if c = HexCoordinate 0 0 then free_field 1
                        else if c = HexCoordinate 2 0 then taken_field ONE (HexCoordinate 2 0)
                        else if c = HexCoordinate 4 0 then free_field 2
                        else if c = HexCoordinate 1 1 then taken_field TWO (HexCoordinate 1 1)
                        else if c = HexCoordinate 3 1 then free_field 1
                        else if c = HexCoordinate 5 1 then free_field 3
                        else free_field 0)\<rparr>"

definition place_one :: move where
  "place_one = \<lparr>team_enum = ONE, from_value = None, to_value = HexCoordinate 2 0\<rparr>"

definition place_two :: move where
  "place_two = \<lparr>team_enum = TWO, from_value = None, to_value = HexCoordinate 1 1\<rparr>"

definition h_ex :: store where
  "h_ex = \<lparr>teams = [\<lparr>name = ONE, penguins = [0], moves = [place_one], fish = 1,
                      opponent = Some 1\<rparr>,
                    \<lparr>name = TWO, penguins = [1], moves = [place_two], fish = 1,
                      opponent = Some 0\<rparr>],
           pengs = [\<lparr>penguin_team = ONE, coordinate = HexCoordinate 2 0\<rparr>,
                    \<lparr>penguin_team = TWO, coordinate = HexCoordinate 1 1\<rparr>]\<rparr>"

definition g_ex :: game_state where
  "g_ex = \<lparr>board = b_ex, turn = 2, first_team = 0, second_team = 1,
           last_move = Some place_two\<rparr>"

definition m_ex :: move where
  "m_ex = \<lparr>team_enum = ONE, from_value = None, to_value = HexCoordinate 3 1\<rparr>"

definition m_foreign :: move where
  "m_foreign = \<lparr>team_enum = TWO, from_value = None, to_value = HexCoordinate 3 1\<rparr>"

definition g_ex1 :: game_state where
  "g_ex1 = \<lparr>board = board_move b_ex m_ex, turn = 3, first_team = 2, second_team = 5,
            last_move = Some m_ex\<rparr>"

definition h_ex1 :: store where
  "h_ex1 =
     \<lparr>teams =
        [\<lparr>name = ONE, penguins = [0], moves = [place_one], fish = 1, opponent = Some 1\<rparr>,
         \<lparr>name = TWO, penguins = [1], moves = [place_two], fish = 1, opponent = Some 0\<rparr>,
         \<lparr>name = ONE, penguins = [2, 8], moves = [place_one, m_ex], fish = 2,
           opponent = Some 5\<rparr>,
         \<lparr>name = TWO, penguins = [3], moves = [place_two], fish = 1, opponent = Some 2\<rparr>,
         \<lparr>name = ONE, penguins = [4], moves = [place_one], fish = 1, opponent = Some 5\<rparr>,
         \<lparr>name = TWO, penguins = [5], moves = [place_two], fish = 1, opponent = Some 2\<rparr>,
         \<lparr>name = ONE, penguins = [6], moves = [place_one], fish = 1, opponent = Some 7\<rparr>,
         \<lparr>name = TWO, penguins = [7], moves = [place_two], fish = 1, opponent = Some 6\<rparr>],
      pengs = pengs h_ex @ pengs h_ex @ pengs h_ex @ pengs h_ex @
              [\<lparr>penguin_team = ONE, coordinate = HexCoordinate 3 1\<rparr>]\<rparr>"

text \<open>
  The same board and pieces with the identities exchanged: the first team is TWO and the
  second is ONE. \<open>m_sw\<close> is the placement of the first team; \<open>g_sw1\<close> and \<open>h_sw1\<close> are the
  successor and the store after it.
\<close>

definition h_sw :: store where
  "h_sw = \<lparr>teams = [\<lparr>name = TWO, penguins = [1], moves = [place_two], fish = 1,
                      opponent = Some 1\<rparr>,
                    \<lparr>name = ONE, penguins = [0], moves = [place_one], fish = 1,
                      opponent = Some 0\<rparr>],
           pengs = pengs h_ex\<rparr>"

definition g_sw :: game_state where
  "g_sw = \<lparr>board = b_ex, turn = 2, first_team = 0, second_team = 1,
           last_move = Some place_one\<rparr>"

definition m_sw :: move where
  "m_sw = \<lparr>team_enum = TWO, from_value = None, to_value = HexCoordinate 3 1\<rparr>"

definition g_sw1 :: game_state where
  "g_sw1 = \<lparr>board = board_move b_ex m_sw, turn = 3, first_team = 2, second_team = 5,
            last_move = Some m_sw\<rparr>"

definition h_sw1 :: store where
  "h_sw1 =
     \<lparr>teams =
        [\<lparr>name = TWO, penguins = [1], moves = [place_two], fish = 1, opponent = Some 1\<rparr>,
         \<lparr>name = ONE, penguins = [0], moves = [place_one], fish = 1, opponent = Some 0\<rparr>,
         \<lparr>name = TWO, penguins = [3], moves = [place_two], fish = 1, opponent = Some 5\<rparr>,
         \<lparr>name = ONE, penguins = [2], moves = [place_one], fish = 1, opponent = Some 2\<rparr>,
         \<lparr>name = TWO, penguins = [5], moves = [place_two], fish = 1, opponent = Some 5\<rparr>,
         \<lparr>name = ONE, penguins = [4, 8], moves = [place_one, m_sw], fish = 2,
           opponent = Some 2\<rparr>,
         \<lparr>name = TWO, penguins = [7], moves = [place_two], fish = 1, opponent = Some 7\<rparr>,
         \<lparr>name = ONE, penguins = [6], moves = [place_one], fish = 1, opponent = Some 6\<rparr>],
      pengs = pengs h_ex @ pengs h_ex @ pengs h_ex @ pengs h_ex @
              [\<lparr>penguin_team = TWO, coordinate = HexCoordinate 3 1\<rparr>]\<rparr>"

text \<open>
  A state of the movement phase: a row of six fields, the four pieces of ONE on the first
  four, two fish on the fifth, and turn 9. Team TWO has no piece and no field with exactly
  one fish to place one on, so the turn passes to ONE. \<open>m_sl\<close> slides the fourth piece
  east; in the successor \<open>g_sl1\<close>, with the store \<open>h_sl1\<close>, neither team has a move.
\<close>

definition b_sl :: board where
  "b_sl = \<lparr>width = 6, height = 1,
           cells = (\<lambda>c. if c = HexCoordinate 0 0 then taken_field ONE (HexCoordinate 0 0)
                        else if c = HexCoordinate 2 0 then taken_field ONE (HexCoordinate 2 0)
                        else if c = HexCoordinate 4 0 then taken_field ONE (HexCoordinate 4 0)
                        else if c = HexCoordinate 6 0 then taken_field ONE (HexCoordinate 6 0)
                        else if c = HexCoordinate 8 0 then free_field 2
                        else free_field 0)\<rparr>"

definition ps_sl :: "penguin list" where
  "ps_sl = [\<lparr>penguin_team = ONE, coordinate = HexCoordinate 0 0\<rparr>,
            \<lparr>penguin_team = ONE, coordinate = HexCoordinate 2 0\<rparr>,
            \<lparr>penguin_team = ONE, coordinate = HexCoordinate 4 0\<rparr>,
            \<lparr>penguin_team = ONE, coordinate = HexCoordinate 6 0\<rparr>]"

definition h_sl :: store where
  "h_sl = \<lparr>teams = [\<lparr>name = ONE, penguins = [0, 1, 2, 3], moves = [], fish = 4,
                      opponent = Some 1\<rparr>,
                    \<lparr>name = TWO, penguins = [], moves = [], fish = 0, opponent = Some 0\<rparr>],
           pengs = ps_sl\<rparr>"

definition g_sl :: game_state where
  "g_sl = \<lparr>board = b_sl, turn = 9, first_team = 0, second_team = 1, last_move = None\<rparr>"

definition m_sl :: move where
  "m_sl = \<lparr>team_enum = ONE, from_value = Some (HexCoordinate 6 0),
           to_value = HexCoordinate 8 0\<rparr>"

definition g_sl1 :: game_state where
  "g_sl1 = \<lparr>board = board_move b_sl m_sl, turn = 10, first_team = 2, second_team = 5,
             last_move = Some m_sl\<rparr>"

definition h_sl1 :: store where
  "h_sl1 =
     \<lparr>teams =
        [\<lparr>name = ONE, penguins = [0, 1, 2, 3], moves = [], fish = 4, opponent = Some 1\<rparr>,
         \<lparr>name = TWO, penguins = [], moves = [], fish = 0, opponent = Some 0\<rparr>,
         \<lparr>name = ONE, penguins = [4, 5, 6, 7], moves = [m_sl], fish = 6, opponent = Some 5\<rparr>,
         \<lparr>name = TWO, penguins = [], moves = [], fish = 0, opponent = Some 2\<rparr>,
         \<lparr>name = ONE, penguins = [8, 9, 10, 11], moves = [], fish = 4, opponent = Some 5\<rparr>,
         \<lparr>name = TWO, penguins = [], moves = [], fish = 0, opponent = Some 2\<rparr>,
         \<lparr>name = ONE, penguins = [12, 13, 14, 15], moves = [], fish = 4,
           opponent = Some 7\<rparr>,
         \<lparr>name = TWO, penguins = [], moves = [], fish = 0, opponent = Some 6\<rparr>],
      pengs = ps_sl @
              (take 3 ps_sl @ [\<lparr>penguin_team = ONE, coordinate = HexCoordinate 8 0\<rparr>]) @
              ps_sl @ ps_sl\<rparr>"



text \<open>The placement state at a turn beyond the integers a double holds exactly.\<close>

definition g_late :: game_state where
  "g_late = g_ex\<lparr>turn := 9007199254740994\<rparr>"

section \<open>Properties\<close>

subsection \<open>Evaluating the examples\<close>

lemmas eval_defs =
  possible_moves_def get_possible_moves_def current_team_def current_team_from_turn_def
  moves_of_team_def placement_moves_def slide_moves_def get_teams_penguins_def
  grid_coordinates_def team_at_def penguin_at_def get_field_def is_occupied_def get_fish_def
  is_valid_move_def perform_move_def deep_copy_def relocate_def update_team_def upd_team_def
  upd_penguin_def alloc_penguin_def board_move_def vacate_def Let_def upt_rec

lemma ex_wf: "wf_state h_ex g_ex"
  by (simp add: wf_state_def wf_team_def h_ex_def g_ex_def)

lemma ex_current_team: "current_team east_slides h_ex g_ex = Some 0"
  by (simp add: eval_defs east_slides_def free_field_def taken_field_def b_ex_def place_one_def
        place_two_def h_ex_def g_ex_def)

lemma ex_perform_move: "perform_move east_slides h_ex g_ex m_ex = (Inr g_ex1, h_ex1)"
  by (simp add: eval_defs east_slides_def free_field_def taken_field_def b_ex_def place_one_def
        place_two_def h_ex_def g_ex_def m_ex_def g_ex1_def h_ex1_def)

lemma sw_wf: "wf_state h_sw g_sw"
  by (simp add: wf_state_def wf_team_def h_ex_def h_sw_def g_sw_def)

lemma sw_current_team: "current_team east_slides h_sw g_sw = Some 0"
  by (simp add: eval_defs east_slides_def free_field_def taken_field_def b_ex_def place_one_def
        place_two_def h_ex_def h_sw_def g_sw_def m_sw_def)

lemma sw_perform_move: "perform_move east_slides h_sw g_sw m_sw = (Inr g_sw1, h_sw1)"
  by (simp add: eval_defs east_slides_def free_field_def taken_field_def b_ex_def place_one_def
        place_two_def h_ex_def h_sw_def g_sw_def m_sw_def g_sw1_def h_sw1_def)

lemma sl_wf: "wf_state h_sl g_sl"
  by (simp add: wf_state_def wf_team_def ps_sl_def h_sl_def g_sl_def)

lemma sl_current_team: "current_team east_slides h_sl g_sl = Some 0"
  by (simp add: eval_defs east_slides_def free_field_def taken_field_def b_sl_def ps_sl_def
        h_sl_def g_sl_def m_sl_def)

lemma sl_perform_move: "perform_move east_slides h_sl g_sl m_sl = (Inr g_sl1, h_sl1)"
  by (simp add: eval_defs east_slides_def free_field_def taken_field_def b_sl_def ps_sl_def
        h_sl_def g_sl_def m_sl_def g_sl1_def h_sl1_def)

lemma sl1_terminal: "terminal east_slides h_sl1 g_sl1"
  by (simp add: terminal_def eval_defs east_slides_def free_field_def taken_field_def b_sl_def
        ps_sl_def h_sl_def g_sl_def m_sl_def g_sl1_def h_sl1_def)

subsection \<open>Move generation and the current team\<close>

lemma get_possible_moves_Some:
  "get_possible_moves pmf h g (Some t) = moves_of_team pmf h g t"
  by (simp add: get_possible_moves_def)

lemma possible_moves_cases:
  "possible_moves pmf h g =
     (case current_team pmf h g of None \<Rightarrow> [] | Some t \<Rightarrow> moves_of_team pmf h g t)"
  by (simp add: possible_moves_def get_possible_moves_def split: option.splits)

lemma current_team_SomeD:
  assumes "current_team pmf h g = Some ct"
  shows "(ct = first_team g \<or> ct = second_team g) \<and> moves_of_team pmf h g ct \<noteq> []"
  using assms
  by (auto simp: current_team_def current_team_from_turn_def Let_def split: if_splits)

lemma current_team_None_iff:
  "current_team pmf h g = None \<longleftrightarrow>
     moves_of_team pmf h g (first_team g) = [] \<and> moves_of_team pmf h g (second_team g) = []"
  by (auto simp: current_team_def current_team_from_turn_def Let_def)

lemma terminal_no_moves:
  assumes "terminal pmf h g"
  shows "current_team pmf h g = None" and "possible_moves pmf h g = []"
proof -
  show "current_team pmf h g = None"
    using assms by (simp add: terminal_def get_possible_moves_Some current_team_None_iff)
  then show "possible_moves pmf h g = []" by (simp add: possible_moves_cases)
qed

lemma valid_has_current_team:
  "is_valid_move pmf h g m \<Longrightarrow> \<exists>ct. current_team pmf h g = Some ct"
  by (cases "current_team pmf h g") (simp_all add: is_valid_move_def possible_moves_cases)

text \<open>
  C3. For every game state and every turn value \<open>n\<close>, \<^verbatim>\<open>current_team_from_turn(n)\<close> is,
  for an even \<open>n\<close>, the first team when it has a legal move, else the second team when it
  has one, else \<^verbatim>\<open>None\<close>; for an odd \<open>n\<close> the same with the two teams exchanged.
\<close>

theorem current_team_from_turn_preference:
  "current_team_from_turn pmf h g n =
     (if even n
      then (if get_possible_moves pmf h g (Some (first_team g)) \<noteq> [] then Some (first_team g)
            else if get_possible_moves pmf h g (Some (second_team g)) \<noteq> []
                 then Some (second_team g) else None)
      else (if get_possible_moves pmf h g (Some (second_team g)) \<noteq> [] then Some (second_team g)
            else if get_possible_moves pmf h g (Some (first_team g)) \<noteq> []
                 then Some (first_team g) else None))"
  by (simp add: current_team_from_turn_def get_possible_moves_Some Let_def
        even_iff_mod_2_eq_zero)

text \<open>
  In the movement example the turn is odd and the second team has no move: the first team
  is the current one.
\<close>

theorem current_team_from_turn_preference_witness:
  "get_possible_moves east_slides h_sl g_sl (Some (second_team g_sl)) = [] \<and>
   get_possible_moves east_slides h_sl g_sl (Some (first_team g_sl)) \<noteq> [] \<and>
   odd (9 :: int) \<and>
   current_team_from_turn east_slides h_sl g_sl 9 = Some (first_team g_sl)"
proof -
  have a: "get_possible_moves east_slides h_sl g_sl (Some (second_team g_sl)) = []"
    by (simp add: eval_defs east_slides_def free_field_def taken_field_def b_sl_def ps_sl_def
          h_sl_def g_sl_def m_sl_def)
  have b: "get_possible_moves east_slides h_sl g_sl (Some (first_team g_sl)) \<noteq> []"
    by (simp add: eval_defs east_slides_def free_field_def taken_field_def b_sl_def ps_sl_def
          h_sl_def g_sl_def m_sl_def)
  show ?thesis
    using current_team_from_turn_preference [of east_slides h_sl g_sl 9] a b by simp
qed

text \<open>
  C8. In a terminal state (neither team has a legal move) \<^verbatim>\<open>current_team\<close> is \<^verbatim>\<open>None\<close> and
  \<^verbatim>\<open>possible_moves\<close> is the empty list. Both are values of total functions: no branch of
  the two properties raises.
\<close>

theorem terminal_state_queries:
  assumes "terminal pmf h g"
  shows "current_team pmf h g = None \<and> possible_moves pmf h g = []"
  using terminal_no_moves [OF assms] by simp

theorem terminal_state_queries_witness:
  "terminal east_slides h_sl1 g_sl1 \<and>
   current_team east_slides h_sl1 g_sl1 = None \<and> possible_moves east_slides h_sl1 g_sl1 = []"
  using terminal_state_queries [OF sl1_terminal] sl1_terminal by simp

text \<open>
  C10. In a terminal state \<^verbatim>\<open>is_valid_move\<close> is false for every move and \<^verbatim>\<open>perform_move\<close>
  raises the invalid-move error, leaving the store as it was: the conjunction of line 121
  stops at \<^verbatim>\<open>is_valid_move\<close>, so the missing current team is never dereferenced and the
  result is not \<open>AttributeError\<close>.
\<close>

theorem terminal_state_rejects_move:
  assumes "terminal pmf h g"
  shows "\<not> is_valid_move pmf h g m \<and> perform_move pmf h g m = (Inl InvalidMove, h)"
proof -
  have "\<not> is_valid_move pmf h g m"
    using terminal_no_moves(2) [OF assms] by (simp add: is_valid_move_def)
  then show ?thesis by (simp add: perform_move_def)
qed

theorem terminal_state_rejects_move_witness:
  "terminal east_slides h_sl1 g_sl1 \<and> \<not> is_valid_move east_slides h_sl1 g_sl1 m_sl \<and>
   perform_move east_slides h_sl1 g_sl1 m_sl = (Inl InvalidMove, h_sl1)"
  using terminal_state_rejects_move [OF sl1_terminal, of m_sl] sl1_terminal by simp

text \<open>
  C2. When the move is not valid, that is, it is not among the legal moves of the current
  team or its declared team is not the current team's identity, \<^verbatim>\<open>perform_move\<close> raises
  the invalid-move error and the store it returns is the store it was given: no object
  has been written.
\<close>

theorem perform_move_invalid:
  assumes "m \<notin> set (possible_moves pmf h g) \<or>
           (\<exists>ct. current_team pmf h g = Some ct \<and> team_enum m \<noteq> name (team_at h ct))"
  shows "perform_move pmf h g m = (Inl InvalidMove, h)"
proof (cases "is_valid_move pmf h g m")
  case False
  then show ?thesis by (simp add: perform_move_def)
next
  case True
  then obtain ct where ct: "current_team pmf h g = Some ct"
    using valid_has_current_team by blast
  with True assms have "name (team_at h ct) \<noteq> team_enum m"
    by (auto simp: is_valid_move_def)
  with True ct show ?thesis by (simp add: perform_move_def)
qed

text \<open>
  The placement of the example declared for team TWO while ONE is to move: it is not a
  legal move, and its team is not the current one.
\<close>

theorem perform_move_invalid_witness:
  "m_foreign \<notin> set (possible_moves east_slides h_ex g_ex) \<and>
   current_team east_slides h_ex g_ex = Some 0 \<and>
   team_enum m_foreign \<noteq> name (team_at h_ex 0) \<and>
   perform_move east_slides h_ex g_ex m_foreign = (Inl InvalidMove, h_ex)"
proof -
  have a: "m_foreign \<notin> set (possible_moves east_slides h_ex g_ex)"
    by (simp add: eval_defs east_slides_def free_field_def taken_field_def b_ex_def
          place_one_def place_two_def h_ex_def g_ex_def m_foreign_def)
  have b: "team_enum m_foreign \<noteq> name (team_at h_ex 0)"
    by (simp add: team_at_def h_ex_def m_foreign_def)
  from a have "perform_move east_slides h_ex g_ex m_foreign = (Inl InvalidMove, h_ex)"
    by (intro perform_move_invalid) simp
  with a b ex_current_team show ?thesis by simp
qed

text \<open>
  The placements of \<^verbatim>\<open>_get_possible_moves\<close> are the free fields with one fish, each field
  of the grid being visited once.
\<close>

lemma placement_moves_filter:
  "placement_moves b t =
     map (\<lambda>c. \<lparr>team_enum = t, from_value = None, to_value = c\<rparr>)
       (filter (\<lambda>c. \<not> is_occupied (get_field b c) \<and> get_fish (get_field b c) = 1)
          (grid_coordinates b))"
proof -
  let ?P = "\<lambda>c. \<not> is_occupied (get_field b c) \<and> get_fish (get_field b c) = 1"
  let ?k = "\<lambda>c. \<lparr>team_enum = t, from_value = None, to_value = c\<rparr>"
  have "placement_moves b t =
      concat (map (\<lambda>x. concat (map (\<lambda>y.
        if ?P (to_hex (CartesianCoordinate (int x) (int y)))
        then [?k (to_hex (CartesianCoordinate (int x) (int y)))] else []) [0..<height b]))
        [0..<width b])"
    by (simp add: placement_moves_def Let_def)
  also have "\<dots> = concat (map (\<lambda>x. map ?k (filter ?P
        (map (\<lambda>y. to_hex (CartesianCoordinate (int x) (int y))) [0..<height b]))) [0..<width b])"
  proof -
    have "concat (map (\<lambda>y.
        if ?P (to_hex (CartesianCoordinate (int x) (int y)))
        then [?k (to_hex (CartesianCoordinate (int x) (int y)))] else []) ys) =
      map ?k (filter ?P (map (\<lambda>y. to_hex (CartesianCoordinate (int x) (int y))) ys))"
      for x :: nat and ys :: "nat list"
      by (induction ys) simp_all
    then show ?thesis by (simp only:)
  qed
  also have "\<dots> = map ?k (filter ?P (grid_coordinates b))"
    by (simp add: grid_coordinates_def map_concat filter_concat comp_def)
  finally show ?thesis .
qed

lemma inj_to_hex: "to_hex c = to_hex d \<Longrightarrow> c = d"
  by (cases c; cases d) (auto split: if_splits)

lemma distinct_grid_coordinates: "distinct (grid_coordinates b)"
proof -
  let ?f = "\<lambda>(x, y). to_hex (CartesianCoordinate (int x) (int y))"
  have "grid_coordinates b = map ?f (List.product [0..<width b] [0..<height b])"
    by (simp add: grid_coordinates_def product_concat_map map_concat comp_def)
  moreover have "inj ?f"
    by (auto simp: inj_on_def dest!: inj_to_hex)
  ultimately show ?thesis
    by (simp add: distinct_map distinct_product inj_on_subset [OF _ subset_UNIV])
qed

text \<open>
  C4. For a team with fewer than four pieces on the board, the legal moves generated for
  it are the placements on the fields of the grid that are free and hold exactly one
  fish: one move for each such field, in the order of the grid, with no source and the
  field's coordinate as destination. The grid lists no field twice, so no placement is
  generated twice, and no field with another number of fish is a destination.
  The number of placed pieces is read from the board, as line 85 does.
\<close>

theorem placement_phase_moves:
  assumes "length (get_teams_penguins (board g) (name (team_at h t))) < 4"
  shows "get_possible_moves pmf h g (Some t) =
           map (\<lambda>c. \<lparr>team_enum = name (team_at h t), from_value = None, to_value = c\<rparr>)
             (filter (\<lambda>c. \<not> is_occupied (get_field (board g) c) \<and>
                           get_fish (get_field (board g) c) = 1)
                (grid_coordinates (board g))) \<and>
         distinct (grid_coordinates (board g)) \<and>
         distinct (get_possible_moves pmf h g (Some t))"
proof -
  let ?k = "\<lambda>c. \<lparr>team_enum = name (team_at h t), from_value = None, to_value = c\<rparr>"
  have eq: "get_possible_moves pmf h g (Some t) =
      map ?k (filter (\<lambda>c. \<not> is_occupied (get_field (board g) c) \<and>
                           get_fish (get_field (board g) c) = 1)
                (grid_coordinates (board g)))"
    using assms by (simp add: get_possible_moves_Some moves_of_team_def placement_moves_filter)
  have "inj ?k" by (simp add: inj_on_def)
  then have "distinct (get_possible_moves pmf h g (Some t))"
    unfolding eq
    by (simp add: distinct_map distinct_grid_coordinates inj_on_subset [OF _ subset_UNIV])
  with eq distinct_grid_coordinates show ?thesis by simp
qed

text \<open>
  In the placement example team ONE has one piece on the board; its legal moves are the
  placements on the two free fields with one fish, and the fields with 0, 2 and 3 fish are
  no destinations.
\<close>

theorem placement_phase_moves_witness:
  "length (get_teams_penguins (board g_ex) (name (team_at h_ex 0))) < 4 \<and>
   get_possible_moves east_slides h_ex g_ex (Some 0) =
     [\<lparr>team_enum = ONE, from_value = None, to_value = HexCoordinate 0 0\<rparr>,
      \<lparr>team_enum = ONE, from_value = None, to_value = HexCoordinate 3 1\<rparr>] \<and>
   filter (\<lambda>c. \<not> is_occupied (get_field (board g_ex) c) \<and>
                get_fish (get_field (board g_ex) c) = 1) (grid_coordinates (board g_ex)) =
     [HexCoordinate 0 0, HexCoordinate 3 1] \<and>
   distinct (get_possible_moves east_slides h_ex g_ex (Some 0))"
proof -
  have a: "length (get_teams_penguins (board g_ex) (name (team_at h_ex 0))) < 4"
    by (simp add: eval_defs east_slides_def free_field_def taken_field_def b_ex_def
          place_one_def place_two_def h_ex_def g_ex_def)
  have b: "filter (\<lambda>c. \<not> is_occupied (get_field (board g_ex) c) \<and>
                get_fish (get_field (board g_ex) c) = 1) (grid_coordinates (board g_ex)) =
     [HexCoordinate 0 0, HexCoordinate 3 1]"
    by (simp add: eval_defs east_slides_def free_field_def taken_field_def b_ex_def
          place_one_def place_two_def h_ex_def g_ex_def)
  have c: "name (team_at h_ex 0) = ONE"
    by (simp add: team_at_def h_ex_def)
  show ?thesis
    using placement_phase_moves [OF a, of east_slides] a b c by simp
qed




subsection \<open>Writes to the store\<close>

lemma teams_upd_team: "teams (upd_team h a f) = (teams h)[a := f (team_at h a)]"
  by (simp add: upd_team_def)

lemma pengs_upd_team: "pengs (upd_team h a f) = pengs h"
  by (simp add: upd_team_def)

lemma team_at_upd_team:
  "team_at (upd_team h a f) b =
     (if b = a \<and> a < length (teams h) then f (team_at h a) else team_at h b)"
  by (cases "a < length (teams h)")
     (auto simp: upd_team_def team_at_def nth_list_update list_update_beyond)

lemma penguin_at_upd_team: "penguin_at (upd_team h a f) p = penguin_at h p"
  by (simp add: upd_team_def penguin_at_def)

lemma teams_upd_penguin: "teams (upd_penguin h p f) = teams h"
  by (simp add: upd_penguin_def)

lemma team_at_upd_penguin: "team_at (upd_penguin h p f) a = team_at h a"
  by (simp add: upd_penguin_def team_at_def)

lemma pengs_upd_penguin: "pengs (upd_penguin h p f) = (pengs h)[p := f (penguin_at h p)]"
  by (simp add: upd_penguin_def)

lemma penguin_at_upd_penguin:
  "penguin_at (upd_penguin h p f) q =
     (if q = p \<and> p < length (pengs h) then f (penguin_at h p) else penguin_at h q)"
  by (cases "p < length (pengs h)")
     (auto simp: upd_penguin_def penguin_at_def nth_list_update list_update_beyond)

lemma teams_alloc_penguin: "teams (alloc_penguin h x) = teams h"
  by (simp add: alloc_penguin_def)

lemma team_at_alloc_penguin: "team_at (alloc_penguin h x) a = team_at h a"
  by (simp add: alloc_penguin_def team_at_def)

lemma pengs_alloc_penguin: "pengs (alloc_penguin h x) = pengs h @ [x]"
  by (simp add: alloc_penguin_def)

lemma penguin_at_alloc_penguin:
  "p < length (pengs h) \<Longrightarrow> penguin_at (alloc_penguin h x) p = penguin_at h p"
  by (simp add: alloc_penguin_def penguin_at_def nth_append)

lemmas store_simps =
  teams_upd_team pengs_upd_team team_at_upd_team penguin_at_upd_team
  teams_upd_penguin team_at_upd_penguin pengs_upd_penguin penguin_at_upd_penguin
  teams_alloc_penguin team_at_alloc_penguin pengs_alloc_penguin penguin_at_alloc_penguin

lemma wf_stateD:
  assumes "wf_state h g"
  shows "first_team g < length (teams h)" and "second_team g < length (teams h)"
    and "a < length (teams h) \<Longrightarrow> p \<in> set (penguins (team_at h a)) \<Longrightarrow> p < length (pengs h)"
  using assms
  by (auto simp: wf_state_def wf_team_def list_all_length team_at_def in_set_conv_nth)

subsection \<open>The two copies\<close>

lemma teams_deep_copy:
  "teams (snd (deep_copy h a)) =
     teams h @ map (relocate (length (teams h)) (length (pengs h))) (teams h)"
  by (simp add: deep_copy_def)

lemma pengs_deep_copy: "pengs (snd (deep_copy h a)) = pengs h @ pengs h"
  by (simp add: deep_copy_def)

lemma fst_deep_copy: "fst (deep_copy h a) = a + length (teams h)"
  by (simp add: deep_copy_def)

lemma team_at_deep_copy_old:
  "b < length (teams h) \<Longrightarrow> team_at (snd (deep_copy h a)) b = team_at h b"
  by (simp add: deep_copy_def team_at_def nth_append)

lemma team_at_deep_copy_new:
  "b < length (teams h) \<Longrightarrow>
   team_at (snd (deep_copy h a)) (b + length (teams h)) =
     relocate (length (teams h)) (length (pengs h)) (team_at h b)"
  by (simp add: deep_copy_def team_at_def nth_append)

lemma penguin_at_deep_copy_old:
  "p < length (pengs h) \<Longrightarrow> penguin_at (snd (deep_copy h a)) p = penguin_at h p"
  by (simp add: deep_copy_def penguin_at_def nth_append)

lemma penguin_at_deep_copy_new:
  "p < length (pengs h) \<Longrightarrow>
   penguin_at (snd (deep_copy h a)) (p + length (pengs h)) = penguin_at h p"
  by (simp add: deep_copy_def penguin_at_def nth_append)

text \<open>
  A copy holds what the original holds: the pieces of the copied team, read through the
  copy's references, are the pieces of the original.
\<close>

lemma deep_copy_team_value:
  assumes "wf_state h g" and "a < length (teams h)"
  shows "team_value (snd (deep_copy h a)) (fst (deep_copy h a)) = team_value h a"
proof -
  have "penguin_at (snd (deep_copy h a)) (p + length (pengs h)) = penguin_at h p"
    if "p \<in> set (penguins (team_at h a))" for p
    using wf_stateD(3) [OF assms that] by (rule penguin_at_deep_copy_new)
  then show ?thesis
    using assms(2)
    by (simp add: team_value_def fst_deep_copy team_at_deep_copy_new relocate_def comp_def)
qed

lemma length_teams_copied: "length (teams (copied h g)) = 4 * length (teams h)"
  by (simp add: copied_def teams_deep_copy)

lemma length_pengs_copied: "length (pengs (copied h g)) = 4 * length (pengs h)"
  by (simp add: copied_def pengs_deep_copy)

lemma team_at_copied_old:
  "a < length (teams h) \<Longrightarrow> team_at (copied h g) a = team_at h a"
  by (simp add: copied_def team_at_deep_copy_old teams_deep_copy)

lemma penguin_at_copied_old:
  "p < length (pengs h) \<Longrightarrow> penguin_at (copied h g) p = penguin_at h p"
  by (simp add: copied_def penguin_at_deep_copy_old pengs_deep_copy)

lemma team_at_copied_first:
  assumes "a < length (teams h)"
  shows "team_at (copied h g) (a + length (teams h)) =
           relocate (length (teams h)) (length (pengs h)) (team_at h a)"
proof -
  let ?h1 = "snd (deep_copy h (first_team g))"
  have "a + length (teams h) < length (teams ?h1)"
    using assms by (simp add: teams_deep_copy)
  then have "team_at (copied h g) (a + length (teams h)) = team_at ?h1 (a + length (teams h))"
    unfolding copied_def by (rule team_at_deep_copy_old)
  then show ?thesis using assms by (simp add: team_at_deep_copy_new)
qed

lemma team_at_copied_second:
  assumes "a < length (teams h)"
  shows "team_at (copied h g) (a + 2 * length (teams h)) =
           relocate (2 * length (teams h)) (2 * length (pengs h)) (team_at h a)"
proof -
  let ?h1 = "snd (deep_copy h (first_team g))"
  have l: "length (teams ?h1) = 2 * length (teams h)" "length (pengs ?h1) = 2 * length (pengs h)"
    by (simp_all add: teams_deep_copy pengs_deep_copy)
  have "a < length (teams ?h1)" using assms l by simp
  then have "team_at (copied h g) (a + length (teams ?h1)) =
      relocate (length (teams ?h1)) (length (pengs ?h1)) (team_at ?h1 a)"
    unfolding copied_def by (rule team_at_deep_copy_new)
  then show ?thesis using assms l by (simp add: team_at_deep_copy_old)
qed

lemma penguins_relocate: "penguins (relocate dt dp t) = map (\<lambda>p. p + dp) (penguins t)"
  by (simp add: relocate_def)

lemma relocate_fields:
  "name (relocate dt dp t) = name t" "fish (relocate dt dp t) = fish t"
  "moves (relocate dt dp t) = moves t"
  by (simp_all add: relocate_def)

lemma old_penguin_not_in_copy:
  assumes "a < length (teams h)" and "p < length (pengs h)"
  shows "p \<notin> set (penguins (team_at (copied h g) (a + length (teams h))))"
    and "p \<notin> set (penguins (team_at (copied h g) (a + 2 * length (teams h))))"
  using assms
  by (auto simp: team_at_copied_first team_at_copied_second penguins_relocate)

subsection \<open>The update of the moving team\<close>

lemma find_Some_in_set: "find P xs = Some x \<Longrightarrow> x \<in> set xs \<and> P x"
  by (induction xs) (auto split: if_splits)

lemma update_team_Inr:
  assumes "update_team g h t m nb = Inr h'"
  shows "length (teams h') = length (teams h)"
    and "length (pengs h) \<le> length (pengs h')"
    and "a \<noteq> t \<Longrightarrow> team_at h' a = team_at h a"
  using assms
  by (auto simp: update_team_def Let_def store_simps split: option.splits)

lemma update_team_penguins:
  assumes "update_team g h t m nb = Inr h'"
    and "p < length (pengs h)" and "p \<notin> set (penguins (team_at h t))"
  shows "penguin_at h' p = penguin_at h p"
proof (cases "t < length (teams h)")
  case True
  then show ?thesis
    using assms
    by (auto simp: update_team_def Let_def store_simps
             split: option.splits dest!: find_Some_in_set)
next
  case False
  then have "team_at (upd_team h t f) t = team_at h t" for f
    by (simp add: store_simps)
  then show ?thesis
    using assms
    by (auto simp: update_team_def Let_def store_simps
             split: option.splits dest!: find_Some_in_set)
qed

lemma update_team_target:
  assumes "update_team g h t m nb = Inr h'" and "t < length (teams h)"
  shows "name (team_at h' t) = name (team_at h t)"
    and "fish (team_at h' t) = fish (team_at h t) + get_fish (get_field (board g) (to_value m))"
    and "moves (team_at h' t) = moves (team_at h t) @ [m]"
    and "opponent (team_at h' t) = opponent (team_at h t)"
  using assms
  by (auto simp: update_team_def Let_def store_simps split: option.splits)

lemma board_move_destination:
  "get_field (board_move b m) (to_value m) =
     \<lparr>fish_count = 0,
      occupant = Some \<lparr>penguin_team = team_enum m, coordinate = to_value m\<rparr>\<rparr>"
  by (simp add: board_move_def get_field_def Let_def)

text \<open>With the new board of \<^verbatim>\<open>Board.move\<close> the update of a team does not fail.\<close>

lemma update_team_board_move:
  "\<exists>h'. update_team g h t m (board_move (board g) m) = Inr h'"
  by (simp add: update_team_def Let_def board_move_destination)

subsection \<open>The transition\<close>

lemma moves_of_team_copied:
  "t < length (teams h) \<Longrightarrow> moves_of_team pmf (copied h g) g t = moves_of_team pmf h g t"
  by (simp add: moves_of_team_def team_at_copied_old)

text \<open>
  The current team is the same before and after the copies, so the second evaluation of
  \<^verbatim>\<open>self.current_team\<close>, in line 125, yields the team of line 121.
\<close>

lemma current_team_copied:
  assumes "wf_state h g"
  shows "current_team pmf (copied h g) g = current_team pmf h g"
  using wf_stateD(1,2) [OF assms]
  by (simp add: current_team_def current_team_from_turn_def moves_of_team_copied)

lemma perform_move_Inr:
  assumes "perform_move pmf h g m = (Inr g', h')"
  shows "\<exists>ct ct2 h3.
      is_valid_move pmf h g m \<and> current_team pmf h g = Some ct \<and>
      name (team_at h ct) = team_enum m \<and>
      current_team pmf (copied h g) g = Some ct2 \<and>
      update_team g (copied h g)
        (if name (team_at (copied h g) ct2) = ONE then first_team g + length (teams h)
         else second_team g + 2 * length (teams h))
        m (board_move (board g) m) = Inr h3 \<and>
      h' = upd_team
             (upd_team h3 (first_team g + length (teams h))
                (\<lambda>tm. tm\<lparr>opponent := Some (second_team g + 2 * length (teams h))\<rparr>))
             (second_team g + 2 * length (teams h))
             (\<lambda>tm. tm\<lparr>opponent := Some (first_team g + length (teams h))\<rparr>) \<and>
      g' = \<lparr>board = board_move (board g) m, turn = turn g + 1,
            first_team = first_team g + length (teams h),
            second_team = second_team g + 2 * length (teams h), last_move = Some m\<rparr>"
proof -
  have l: "length (teams (snd (deep_copy h (first_team g)))) = 2 * length (teams h)"
    by (simp add: teams_deep_copy)
  show ?thesis
    using assms
    unfolding perform_move_def copied_def Let_def case_prod_beta fst_deep_copy l
    by (auto split: if_splits option.splits sum.splits)
qed

text \<open>A valid move of the current team is performed: the transition does not fail.\<close>

lemma perform_move_succeeds:
  assumes "wf_state h g" and "is_valid_move pmf h g m" and "current_team pmf h g = Some ct"
    and "name (team_at h ct) = team_enum m"
  shows "\<exists>g' h'. perform_move pmf h g m = (Inr g', h')"
proof -
  let ?h2 = "snd (deep_copy (snd (deep_copy h (first_team g))) (second_team g))"
  have c: "current_team pmf ?h2 g = Some ct"
    using current_team_copied [OF assms(1), of pmf] assms(3) by (simp add: copied_def)
  obtain ha where a: "update_team g ?h2 (fst (deep_copy h (first_team g))) m
      (board_move (board g) m) = Inr ha"
    using update_team_board_move by blast
  obtain hb where b: "update_team g ?h2
      (fst (deep_copy (snd (deep_copy h (first_team g))) (second_team g))) m
      (board_move (board g) m) = Inr hb"
    using update_team_board_move by blast
  show ?thesis
    using assms(2-4) a b c by (simp add: perform_move_def Let_def case_prod_beta)
qed

lemma perform_move_frame:
  assumes pm: "perform_move pmf h g m = (Inr g', h')"
    and wf: "wf_state h g"
  shows "a < length (teams h) \<Longrightarrow> team_at h' a = team_at h a"
    and "p < length (pengs h) \<Longrightarrow> penguin_at h' p = penguin_at h p"
    and "length (teams h') = 4 * length (teams h)"
    and "4 * length (pengs h) \<le> length (pengs h')"
proof -
  let ?n = "length (teams h)"
  let ?h2 = "copied h g"
  let ?f = "first_team g + ?n"
  let ?s = "second_team g + 2 * ?n"
  from perform_move_Inr [OF pm] obtain ct h3 where
    ut: "update_team g ?h2 (if name (team_at ?h2 ct) = ONE then ?f else ?s) m
           (board_move (board g) m) = Inr h3"
    and h': "h' = upd_team (upd_team h3 ?f (\<lambda>tm. tm\<lparr>opponent := Some ?s\<rparr>)) ?s
                    (\<lambda>tm. tm\<lparr>opponent := Some ?f\<rparr>)"
    by blast
  let ?t = "if name (team_at ?h2 ct) = ONE then ?f else ?s"
  note fs = wf_stateD(1,2) [OF wf]
  show "team_at h' a = team_at h a" if a: "a < ?n"
  proof -
    have "team_at h' a = team_at h3 a" using a by (simp add: h' store_simps)
    also have "\<dots> = team_at ?h2 a" using a by (intro update_team_Inr(3) [OF ut]) simp
    also have "\<dots> = team_at h a" using a by (rule team_at_copied_old)
    finally show ?thesis .
  qed
  show "penguin_at h' p = penguin_at h p" if p: "p < length (pengs h)"
  proof -
    have "p \<notin> set (penguins (team_at ?h2 ?t))"
      using old_penguin_not_in_copy [OF fs(1) p, of g] old_penguin_not_in_copy [OF fs(2) p, of g]
      by simp
    moreover have "p < length (pengs ?h2)" using p by (simp add: length_pengs_copied)
    ultimately have "penguin_at h3 p = penguin_at ?h2 p"
      by (intro update_team_penguins [OF ut])
    then show ?thesis using p by (simp add: h' store_simps penguin_at_copied_old)
  qed
  show "length (teams h') = 4 * ?n"
    using update_team_Inr(1) [OF ut] by (simp add: h' store_simps length_teams_copied)
  show "4 * length (pengs h) \<le> length (pengs h')"
    using update_team_Inr(2) [OF ut] by (simp add: h' store_simps length_pengs_copied)
qed

lemma team_value_frame:
  assumes pm: "perform_move pmf h g m = (Inr g', h')"
    and wf: "wf_state h g" and a: "a < length (teams h)"
  shows "team_value h' a = team_value h a"
proof -
  have t: "team_at h' a = team_at h a" by (rule perform_move_frame(1) [OF pm wf a])
  have "map (penguin_at h') (penguins (team_at h a)) = map (penguin_at h) (penguins (team_at h a))"
    using perform_move_frame(2) [OF pm wf] wf_stateD(3) [OF wf a] by simp
  then show ?thesis by (simp add: team_value_def t)
qed

lemma take_eq_nth:
  assumes "n \<le> length ys" "length xs = n" "\<And>i. i < n \<Longrightarrow> ys ! i = xs ! i"
  shows "take n ys = xs"
  using assms by (auto simp: list_eq_iff_nth_eq)

text \<open>
  C1. A successful \<^verbatim>\<open>perform_move\<close> leaves the receiver as it was. The game state itself
  is never assigned to after its construction and the board is replaced, not written; the
  team and piece objects are in the store, and every object that existed before the call
  is unchanged after it: the old store is an initial segment of the new one. So the two
  teams of the receiver hold the same identity, pieces, move history and score as before.
\<close>

theorem perform_move_keeps_receiver:
  assumes "perform_move pmf h g m = (Inr g', h')" and "wf_state h g"
  shows "take (length (teams h)) (teams h') = teams h \<and>
         take (length (pengs h)) (pengs h') = pengs h \<and>
         team_value h' (first_team g) = team_value h (first_team g) \<and>
         team_value h' (second_team g) = team_value h (second_team g)"
proof -
  note fr = perform_move_frame [OF assms]
  have "take (length (teams h)) (teams h') = teams h"
    using fr(1,3) by (intro take_eq_nth) (simp_all add: team_at_def)
  moreover have "take (length (pengs h)) (pengs h') = pengs h"
    using fr(2,4) by (intro take_eq_nth) (simp_all add: penguin_at_def)
  ultimately show ?thesis
    using team_value_frame [OF assms] wf_stateD(1,2) [OF assms(2)] by simp
qed

theorem perform_move_keeps_receiver_witness:
  "perform_move east_slides h_sl g_sl m_sl = (Inr g_sl1, h_sl1) \<and> wf_state h_sl g_sl \<and>
   take (length (teams h_sl)) (teams h_sl1) = teams h_sl \<and>
   take (length (pengs h_sl)) (pengs h_sl1) = pengs h_sl \<and>
   team_value h_sl1 (first_team g_sl) = team_value h_sl (first_team g_sl) \<and>
   team_value h_sl1 (second_team g_sl) = team_value h_sl (second_team g_sl)"
  using perform_move_keeps_receiver [OF sl_perform_move sl_wf] sl_perform_move sl_wf
  by simp

text \<open>
  C9. After a successful \<^verbatim>\<open>perform_move\<close> the opponent of the new first team is the new
  second team and the opponent of the new second team is the new first team. The two are
  different objects of the new store, and neither existed in the store of the
  predecessor, so no reference of the new state reaches a team of the old one.
\<close>

theorem perform_move_links_opponents:
  assumes pm: "perform_move pmf h g m = (Inr g', h')" and wf: "wf_state h g"
  shows "opponent (team_at h' (first_team g')) = Some (second_team g') \<and>
         opponent (team_at h' (second_team g')) = Some (first_team g') \<and>
         first_team g' \<noteq> second_team g' \<and>
         first_team g' < length (teams h') \<and> second_team g' < length (teams h') \<and>
         length (teams h) \<le> first_team g' \<and> length (teams h) \<le> second_team g'"
proof -
  let ?n = "length (teams h)"
  let ?f = "first_team g + ?n"
  let ?s = "second_team g + 2 * ?n"
  from perform_move_Inr [OF pm] obtain ct h3 where
    ut: "update_team g (copied h g) (if name (team_at (copied h g) ct) = ONE then ?f else ?s) m
           (board_move (board g) m) = Inr h3"
    and h': "h' = upd_team (upd_team h3 ?f (\<lambda>tm. tm\<lparr>opponent := Some ?s\<rparr>)) ?s
                    (\<lambda>tm. tm\<lparr>opponent := Some ?f\<rparr>)"
    and g': "g' = \<lparr>board = board_move (board g) m, turn = turn g + 1,
                  first_team = ?f, second_team = ?s, last_move = Some m\<rparr>"
    by blast
  note fs = wf_stateD(1,2) [OF wf]
  have l3: "length (teams h3) = 4 * ?n"
    using update_team_Inr(1) [OF ut] by (simp add: length_teams_copied)
  have "opponent (team_at h' ?f) = Some ?s" "opponent (team_at h' ?s) = Some ?f"
    using fs l3 by (simp_all add: h' store_simps)
  moreover have "length (teams h') = 4 * ?n"
    by (simp add: h' store_simps l3)
  ultimately show ?thesis using fs by (simp add: g')
qed

theorem perform_move_links_opponents_witness:
  "perform_move east_slides h_ex g_ex m_ex = (Inr g_ex1, h_ex1) \<and> wf_state h_ex g_ex \<and>
   opponent (team_at h_ex1 (first_team g_ex1)) = Some (second_team g_ex1) \<and>
   opponent (team_at h_ex1 (second_team g_ex1)) = Some (first_team g_ex1) \<and>
   first_team g_ex1 \<noteq> second_team g_ex1 \<and>
   first_team g_ex1 < length (teams h_ex1) \<and> second_team g_ex1 < length (teams h_ex1) \<and>
   length (teams h_ex) \<le> first_team g_ex1 \<and> length (teams h_ex) \<le> second_team g_ex1"
  using perform_move_links_opponents [OF ex_perform_move ex_wf] ex_perform_move ex_wf
  by simp

text \<open>
  The destination of a performed move holds no fish on the new board, whatever the
  identities of the teams: the new board is the one \<^verbatim>\<open>Board.move\<close> returns.
\<close>

lemma perform_move_harvests_destination:
  assumes "perform_move pmf h g m = (Inr g', h')"
  shows "get_fish (get_field (board g') (to_value m)) = 0"
proof -
  from perform_move_Inr [OF assms] have "board g' = board_move (board g) m" by auto
  then show ?thesis by (simp add: board_move_destination get_fish_def)
qed

text \<open>
  Line 125 updates the copy of the first team when the current team's identity is ONE and
  the copy of the second team otherwise. Where the first team is ONE and the second is
  TWO the updated copy is the moving team's, and its score grows by the fish of the
  destination on the old board.
\<close>

lemma perform_move_credits_mover_one_first:
  assumes pm: "perform_move pmf h g m = (Inr g', h')" and wf: "wf_state h g"
    and ct: "current_team pmf h g = Some ct"
    and one: "name (team_at h (first_team g)) = ONE"
    and two: "name (team_at h (second_team g)) = TWO"
  shows "fish (team_at h' (moved_team g g' ct)) - fish (team_at h ct) =
           get_fish (get_field (board g) (to_value m))"
proof -
  let ?n = "length (teams h)"
  let ?h2 = "copied h g"
  let ?f = "first_team g + ?n"
  let ?s = "second_team g + 2 * ?n"
  from perform_move_Inr [OF pm] current_team_copied [OF wf, of pmf] ct obtain h3 where
    ut: "update_team g ?h2 (if name (team_at ?h2 ct) = ONE then ?f else ?s) m
           (board_move (board g) m) = Inr h3"
    and h': "h' = upd_team (upd_team h3 ?f (\<lambda>tm. tm\<lparr>opponent := Some ?s\<rparr>)) ?s
                    (\<lambda>tm. tm\<lparr>opponent := Some ?f\<rparr>)"
    and g': "g' = \<lparr>board = board_move (board g) m, turn = turn g + 1,
                  first_team = ?f, second_team = ?s, last_move = Some m\<rparr>"
    by auto
  note fs = wf_stateD(1,2) [OF wf]
  let ?t = "if name (team_at ?h2 ct) = ONE then ?f else ?s"
  have cases: "ct = first_team g \<or> ct = second_team g"
    using current_team_SomeD [OF ct] by simp
  have mt: "moved_team g g' ct = ?t"
    using cases fs one two by (auto simp: moved_team_def g' team_at_copied_old)
  have old: "fish (team_at ?h2 ?t) = fish (team_at h ct)"
    using cases fs one two
    by (auto simp: team_at_copied_old team_at_copied_first team_at_copied_second
        relocate_fields)
  have lt: "?t < length (teams ?h2)" using fs by (simp add: length_teams_copied)
  have "fish (team_at h3 ?t) =
      fish (team_at ?h2 ?t) + get_fish (get_field (board g) (to_value m))"
    by (rule update_team_target(2) [OF ut lt])
  moreover have "fish (team_at h' ?t) = fish (team_at h3 ?t)"
    using fs by (auto simp: h' store_simps)
  ultimately show ?thesis using mt old by simp
qed

text \<open>
  The slide of the movement example lands on a field with two fish: the score of ONE goes
  from 4 to 6 and the field is empty afterwards.
\<close>

lemma perform_move_credits_mover_example:
  "get_fish (get_field (board g_sl) (to_value m_sl)) = 2 \<and>
   fish (team_at h_sl1 (moved_team g_sl g_sl1 0)) - fish (team_at h_sl 0) = 2 \<and>
   get_fish (get_field (board g_sl1) (to_value m_sl)) = 0"
proof -
  have one: "name (team_at h_sl (first_team g_sl)) = ONE"
    and two: "name (team_at h_sl (second_team g_sl)) = TWO"
    and two_fish: "get_fish (get_field (board g_sl) (to_value m_sl)) = 2"
    by (simp_all add: team_at_def get_field_def get_fish_def east_slides_def free_field_def
          taken_field_def b_sl_def ps_sl_def h_sl_def g_sl_def m_sl_def)
  show ?thesis
    using perform_move_credits_mover_one_first [OF sl_perform_move sl_wf sl_current_team one two]
      perform_move_harvests_destination [OF sl_perform_move] two_fish
    by simp
qed

text \<open>
  C6. A successful \<^verbatim>\<open>perform_move\<close> is to add the fish of the destination field, read
  from the old board, to the score of the moving team. The code does not where the first
  team is TWO. In the exchanged example the first team, TWO, is the current team
  (\<^verbatim>\<open>current_team_from_turn\<close> goes by position) and places a piece on a field with one
  fish. The move is performed; the test of line 125, whether the current team's identity
  is ONE, is false, and line 128 updates the copy of the second team. The score of the
  moving team stays 1, and team ONE, which did not move, receives the move, the piece of
  TWO and the fish: its score goes from 1 to 2.
\<close>

theorem perform_move_credits_wrong_team:
  "perform_move east_slides h_sw g_sw m_sw = (Inr g_sw1, h_sw1) \<and> wf_state h_sw g_sw \<and>
   current_team east_slides h_sw g_sw = Some (first_team g_sw) \<and>
   name (team_at h_sw (first_team g_sw)) = team_enum m_sw \<and>
   get_fish (get_field (board g_sw) (to_value m_sw)) = 1 \<and>
   fish (team_at h_sw1 (first_team g_sw1)) - fish (team_at h_sw (first_team g_sw)) = 0 \<and>
   fish (team_at h_sw1 (second_team g_sw1)) - fish (team_at h_sw (second_team g_sw)) = 1 \<and>
   moves (team_at h_sw1 (first_team g_sw1)) = moves (team_at h_sw (first_team g_sw)) \<and>
   moves (team_at h_sw1 (second_team g_sw1)) = moves (team_at h_sw (second_team g_sw)) @ [m_sw] \<and>
   map (penguin_at h_sw1) (penguins (team_at h_sw1 (second_team g_sw1))) =
     [\<lparr>penguin_team = ONE, coordinate = HexCoordinate 2 0\<rparr>,
      \<lparr>penguin_team = TWO, coordinate = HexCoordinate 3 1\<rparr>]"
proof -
  have "current_team east_slides h_sw g_sw = Some (first_team g_sw)"
    using sw_current_team by (simp add: g_sw_def)
  moreover have "name (team_at h_sw (first_team g_sw)) = team_enum m_sw"
    "get_fish (get_field (board g_sw) (to_value m_sw)) = 1"
    "fish (team_at h_sw1 (first_team g_sw1)) - fish (team_at h_sw (first_team g_sw)) = 0"
    "fish (team_at h_sw1 (second_team g_sw1)) - fish (team_at h_sw (second_team g_sw)) = 1"
    "moves (team_at h_sw1 (first_team g_sw1)) = moves (team_at h_sw (first_team g_sw))"
    "moves (team_at h_sw1 (second_team g_sw1)) =
       moves (team_at h_sw (second_team g_sw)) @ [m_sw]"
    "map (penguin_at h_sw1) (penguins (team_at h_sw1 (second_team g_sw1))) =
       [\<lparr>penguin_team = ONE, coordinate = HexCoordinate 2 0\<rparr>,
        \<lparr>penguin_team = TWO, coordinate = HexCoordinate 3 1\<rparr>]"
    by (simp_all add: team_at_def penguin_at_def get_field_def get_fish_def east_slides_def
          free_field_def taken_field_def b_ex_def place_one_def place_two_def h_ex_def
          h_sw_def g_sw_def m_sw_def g_sw1_def h_sw1_def)
  ultimately show ?thesis using sw_perform_move sw_wf by simp
qed

subsection \<open>Rounds\<close>

lemma bit_length_le: "bit_length n \<le> k \<longleftrightarrow> n < 2 ^ k"
proof (induction n arbitrary: k rule: bit_length.induct)
  case (1 n)
  show ?case
  proof (cases "n = 0")
    case True
    then show ?thesis by (simp add: bit_length.simps)
  next
    case False
    show ?thesis
    proof (cases k)
      case 0
      with False show ?thesis by (simp add: bit_length.simps)
    next
      case (Suc j)
      have "bit_length n = Suc (bit_length (n div 2))"
        using False by (simp add: bit_length.simps)
      moreover have "bit_length (n div 2) \<le> j \<longleftrightarrow> n div 2 < 2 ^ j"
        using 1 False by simp
      moreover have "n div 2 < 2 ^ j \<longleftrightarrow> n < 2 ^ Suc j"
        by auto
      ultimately show ?thesis using Suc by simp
    qed
  qed
qed

lemma py_int_half: "0 \<le> n \<Longrightarrow> py_int (of_int n / 2) = n div 2"
proof -
  assume "0 \<le> n"
  have "\<lfloor>rat_of_int n / of_int 2\<rfloor> = n div 2" by (rule floor_divide_of_int_eq)
  then show ?thesis using \<open>0 \<le> n\<close> by (simp add: py_int_def)
qed

text \<open>
  C7, as amended. For a turn counter \<open>t\<close> with \<open>0 \<le> t < 2 ^ 53\<close> the round is
  \<open>\<lfloor>(t + 1) / 2\<rfloor>\<close>: the quotient is a double, and truncating it gives the floor.
\<close>

theorem round_state_floor:
  assumes "0 \<le> turn g" and "turn g < 2 ^ 53"
  shows "round_state g = Inr ((turn g + 1) div 2)"
proof (cases "turn g + 1 = 2 ^ 53")
  case False
  then have "nat \<bar>turn g + 1\<bar> < 2 ^ 53" using assms by simp
  then have "bit_length (nat \<bar>turn g + 1\<bar>) \<le> 53" by (simp only: bit_length_le)
  moreover have "py_int (of_int (turn g + 1) / 2) = (turn g + 1) div 2"
    using assms by (intro py_int_half) simp
  ultimately show ?thesis
    by (simp only: round_state_def true_div_2_def Let_def if_True sum.case)
next
  case True
  have "\<not> bit_length (2 ^ 53) \<le> 53" "bit_length (2 ^ 53) \<le> 54"
    by (simp_all only: bit_length_le) simp_all
  then have b: "bit_length (2 ^ 53) = 54" by arith
  show ?thesis
    using True b
    by (simp add: round_state_def true_div_2_def Let_def round_half_even_def py_int_def)
qed

theorem round_state_floor_witness:
  "0 \<le> turn g_ex \<and> turn g_ex < 2 ^ 53 \<and> round_state g_ex = Inr 1 \<and>
   (turn g_ex + 1) div 2 = 1"
proof -
  have a: "0 \<le> turn g_ex" "turn g_ex < 2 ^ 53" "(turn g_ex + 1) div 2 = 1"
    by (simp_all add: g_ex_def)
  show ?thesis using round_state_floor [OF a(1,2)] a by simp
qed

text \<open>
  C7 as stated fails at the turn \<open>2 ^ 53 + 2\<close>. Half of \<open>2 ^ 53 + 3\<close> lies midway between
  two doubles and is rounded to the one with the even mantissa, which is the larger: the
  round is \<open>2 ^ 52 + 2\<close>, and the floor of the quotient is \<open>2 ^ 52 + 1\<close>.
\<close>

theorem round_state_floor_counterexample:
  "0 \<le> turn g_late \<and> round_state g_late = Inr 4503599627370498 \<and>
   (turn g_late + 1) div 2 = 4503599627370497"
proof -
  have "\<not> bit_length 9007199254740995 \<le> 53" "bit_length 9007199254740995 \<le> 54"
    by (simp_all only: bit_length_le) simp_all
  then have b: "bit_length 9007199254740995 = 54" by arith
  show ?thesis
    by (simp add: round_state_def true_div_2_def g_late_def g_ex_def Let_def b
          round_half_even_def py_int_def)
qed

end
